theory Spec2Isabelle
  imports Complex_Main "HOL-Library.Char_ord" "HOL-Library.List_Lexorder"
begin

section \<open>Data model\<close>

text \<open>
  One row of the table \<open>MKT_DATA\<close>, with the column names of \<open>MarketDataDAO.schema\<close>.
  A calendar date is its proleptic Gregorian ordinal (\<open>date.toordinal()\<close>), so that
  \<open>d - timedelta(days=n)\<close> is \<open>d - n\<close>; the range limits of \<open>datetime.date\<close>
  (years 1 to 9999) are not modelled. A \<open>float64\<close> is the rational it denotes and
  arithmetic on it is exact: the rounding of binary floating point is not modelled.
  The volume column is generic: the downloaded frame holds it as a float, the
  table as an \<open>int64\<close>.
\<close>

record 'v mkt_row =
  MKT_SYMBOL :: string
  MKT_DATE :: int
  MKT_OPEN :: rat
  MKT_HIGH :: rat
  MKT_LOW :: rat
  MKT_CLOSE :: rat
  MKT_VOLUME :: 'v

type_synonym bar = "int mkt_row"

text \<open>Exceptions of the Python code, as values.\<close>

datatype error =
  DigestError | IndexError | TypeError | ValueError | OverflowError
  | RuntimeError | AttributeError

text \<open>
  The database behind the connection pool: the rows of \<open>MKT_DATA\<close> and, for the
  claims about which queries a digest issues, the log of the range queries
  executed so far (symbol, lo date, hi date).
\<close>

record conn =
  MKT_DATA :: "bar list"
  selects :: "(string \<times> int \<times> int) list"


section \<open>MarketDataDAO (dao.py)\<close>


text \<open>Python's \<open>int(x)\<close> and numpy's \<open>astype('int64')\<close> on a float: truncation toward zero.\<close>

definition py_int :: "rat \<Rightarrow> int" where
  "py_int x = (if x < 0 then \<lceil>x\<rceil> else \<lfloor>x\<rfloor>)"


text \<open>The \<open>WHERE\<close> clause of \<open>select\<close>.\<close>

definition in_range :: "string \<Rightarrow> int \<Rightarrow> int \<Rightarrow> bar \<Rightarrow> bool" where
  "in_range symbol lo_date hi_date r \<longleftrightarrow>
     MKT_SYMBOL r = symbol \<and> (MKT_DATE r \<ge> lo_date \<and> MKT_DATE r \<le> hi_date)"

text \<open>
  \<open>select\<close>: the rows of the symbol with a date in the inclusive range. The rows read
  back from the table already have the dtypes of the schema, so \<open>to_schema\<close> leaves
  them as they are. The query is appended to the log.
\<close>

definition dao_select :: "string \<Rightarrow> int \<Rightarrow> int \<Rightarrow> conn \<Rightarrow> bar list \<times> conn" where
  "dao_select symbol lo_date hi_date c =
     (filter (in_range symbol lo_date hi_date) (MKT_DATA c),
      c\<lparr>selects := selects c @ [(symbol, lo_date, hi_date)]\<rparr>)"



text \<open>The primary key of \<open>MKT_DATA\<close>: at most one row per symbol and date.\<close>

definition pkey :: "bar \<Rightarrow> string \<times> int" where
  "pkey r = (MKT_SYMBOL r, MKT_DATE r)"

definition primary_key_ok :: "bar list \<Rightarrow> bool" where
  "primary_key_ok t \<longleftrightarrow> distinct (map pkey t)"

section \<open>StockService (service.py)\<close>

text \<open>What a Python variable holding the result of \<open>maybe_get_data\<close> can be.\<close>

datatype pyobj = PyNone | DataFrame "bar list"

text \<open>
  \<open>df.sort_values(by='MKT_DATE', ascending=False)\<close>. Rows with equal dates come in
  an order pandas does not fix; the primary key excludes them within one symbol.
\<close>

definition sort_values_desc :: "bar list \<Rightarrow> bar list" where
  "sort_values_desc df = rev (sort_key MKT_DATE df)"

definition maybe_get_data :: "string \<Rightarrow> int \<Rightarrow> int \<Rightarrow> conn \<Rightarrow> pyobj \<times> conn" where
  "maybe_get_data symbol as_of_date look_back c =
     (let lo_date = as_of_date - look_back;
          (df, c') = dao_select symbol lo_date as_of_date c
      in if df = [] then (DataFrame df, c')
         else (DataFrame (take 1 (sort_values_desc df)), c'))"

subsection \<open>Formatting\<close>

text \<open>Decimal digits of a natural number, as \<open>str\<close> prints them.\<close>

definition digit_char :: "nat \<Rightarrow> char" where
  "digit_char n = ''0123456789'' ! (n mod 10)"

fun str_nat :: "nat \<Rightarrow> string" where
  "str_nat n = (if n < 10 then [digit_char n] else str_nat (n div 10) @ [digit_char n])"

definition str_int :: "int \<Rightarrow> string" where
  "str_int i = (if i < 0 then ''-'' @ str_nat (nat (- i)) else str_nat (nat i))"

text \<open>The \<open>,\<close> option of the format mini-language: a comma every three digits from the right.\<close>

fun group3 :: "string \<Rightarrow> string" where
  "group3 (a # b # c # d # ds) = a # b # c # CHR '','' # group3 (d # ds)"
| "group3 ds = ds"

definition thousands :: "nat \<Rightarrow> string" where
  "thousands n = rev (group3 (rev (str_nat n)))"

text \<open>The \<open>.0f\<close> presentation rounds to the nearest integer, a tie to the even one.\<close>

definition round_half_even :: "rat \<Rightarrow> int" where
  "round_half_even x =
     (let f = \<lfloor>x\<rfloor>; d = x - of_int f
      in if d < 1 / 2 then f else if d > 1 / 2 then f + 1
         else if even f then f else f + 1)"

text \<open>\<open>f'{value:,.0f}'\<close>\<close>

definition fmt_comma0 :: "rat \<Rightarrow> string" where
  "fmt_comma0 x =
     (if x < 0 then ''-'' @ thousands (nat (round_half_even (- x)))
      else thousands (nat (round_half_even x)))"

text \<open>
  \<open>strftime('%a %d %b %y')\<close> in the C locale, from the ordinal of the date:
  the year, month and day are computed as \<open>date.fromordinal\<close> does.
\<close>

definition days_before_month :: "int \<Rightarrow> int" where
  "days_before_month m = [0, 0, 31, 59, 90, 120, 151, 181, 212, 243, 273, 304, 334] ! nat m"

definition days_in_month :: "int \<Rightarrow> int" where
  "days_in_month m = [0, 31, 28, 31, 30, 31, 30, 31, 31, 30, 31, 30, 31] ! nat m"

definition ord2ymd :: "int \<Rightarrow> int \<times> int \<times> int" where
  "ord2ymd ordinal =
     (let n = ordinal - 1;
          n400 = n div 146097; n = n mod 146097;
          n100 = n div 36524; n = n mod 36524;
          n4 = n div 1461; n = n mod 1461;
          n1 = n div 365; n = n mod 365;
          year = n400 * 400 + 1 + n100 * 100 + n4 * 4 + n1
      in if n1 = 4 \<or> n100 = 4 then (year - 1, 12, 31)
         else
           let leapyear = (n1 = 3 \<and> (n4 \<noteq> 24 \<or> n100 = 3));
               month = (n + 50) div 32;
               preceding = days_before_month month + (if month > 2 \<and> leapyear then 1 else 0)
           in if preceding > n
              then (year, month - 1,
                    n - (preceding - (days_in_month (month - 1)
                           + (if month - 1 = 2 \<and> leapyear then 1 else 0))) + 1)
              else (year, month, n - preceding + 1))"

definition day_abbr :: "int \<Rightarrow> string" where
  "day_abbr ordinal =
     (let wd = (ordinal + 6) mod 7
      in if wd = 0 then ''Mon'' else if wd = 1 then ''Tue'' else if wd = 2 then ''Wed''
         else if wd = 3 then ''Thu'' else if wd = 4 then ''Fri'' else if wd = 5 then ''Sat''
         else ''Sun'')"

definition month_abbr :: "int \<Rightarrow> string" where
  "month_abbr m =
     (if m = 1 then ''Jan'' else if m = 2 then ''Feb'' else if m = 3 then ''Mar''
      else if m = 4 then ''Apr'' else if m = 5 then ''May'' else if m = 6 then ''Jun''
      else if m = 7 then ''Jul'' else if m = 8 then ''Aug'' else if m = 9 then ''Sep''
      else if m = 10 then ''Oct'' else if m = 11 then ''Nov'' else ''Dec'')"

definition two_digits :: "int \<Rightarrow> string" where
  "two_digits i = [digit_char (nat i div 10), digit_char (nat i)]"

definition strftime_a_d_b_y :: "int \<Rightarrow> string" where
  "strftime_a_d_b_y ordinal =
     (case ord2ymd ordinal of (y, m, d) \<Rightarrow>
        day_abbr ordinal @ '' '' @ two_digits d @ '' '' @ month_abbr m @ '' ''
        @ two_digits (y mod 100))"

subsection \<open>digest\_str\<close>

text \<open>
  \<open>pct = int((compare_value - value) / value * 100)\<close>. The operands are numpy scalars:
  a division by zero gives an infinity or a NaN, and \<open>int\<close> of those raises
  \<open>OverflowError\<close> and \<open>ValueError\<close>.
\<close>

definition digest_pct :: "rat \<Rightarrow> rat \<Rightarrow> error + int" where
  "digest_pct value compare_value =
     (if value = 0 then (if compare_value - value = 0 then Inl ValueError else Inl OverflowError)
      else Inr (py_int ((compare_value - value) / value * 100)))"

text \<open>The arrows, as the bytes of their UTF-8 encoding: U+2191, U+2193, U+2192.\<close>

definition arrow_up :: string where
  "arrow_up = [CHR 0xE2, CHR 0x86, CHR 0x91]"

definition arrow_down :: string where
  "arrow_down = [CHR 0xE2, CHR 0x86, CHR 0x93]"

definition arrow_right :: string where
  "arrow_right = [CHR 0xE2, CHR 0x86, CHR 0x92]"

definition indicator :: "int \<Rightarrow> string" where
  "indicator pct = (if pct > 0 then arrow_up else if pct < 0 then arrow_down else arrow_right)"

text \<open>
  \<open>digest_str(value, compare_value, ballpark_value)\<close>. The formatter
  \<open>ballpark.business\<close> of the third-party package is a parameter.
\<close>

definition digest_str :: "(rat \<Rightarrow> string) \<Rightarrow> rat \<Rightarrow> rat \<Rightarrow> bool \<Rightarrow> error + string" where
  "digest_str business value compare_value ballpark_value =
     (case digest_pct value compare_value of
        Inl e \<Rightarrow> Inl e
      | Inr pct \<Rightarrow>
          Inr ((if ballpark_value then business value else fmt_comma0 value)
               @ '' ('' @ indicator pct @ '' '' @ str_int pct @ ''%)''))"

subsection \<open>Frames of the digest\<close>

text \<open>
  The pivoted frame: the index (the values of \<open>METRIC\<close>), the column names and one
  row of cells per index value; a cell with no entry in the long frame is NaN
  (\<open>None\<close>). The returned report has a plain range index: column names and rows.
\<close>

record wide =
  w_index :: "string list"
  w_columns :: "string list"
  w_values :: "string option list list"

record report =
  columns :: "string list"
  rows :: "string option list list"

text \<open>Applying a function that may raise to a column: the first exception ends it.\<close>

fun apply_col :: "('a \<Rightarrow> error + 'b) \<Rightarrow> 'a list \<Rightarrow> error + 'b list" where
  "apply_col f [] = Inr []"
| "apply_col f (x # xs) =
     (case f x of
        Inl e \<Rightarrow> Inl e
      | Inr y \<Rightarrow> (case apply_col f xs of Inl e \<Rightarrow> Inl e | Inr ys \<Rightarrow> Inr (y # ys)))"

text \<open>
  \<open>melt(id_vars='LABEL', value_vars=metrics, var_name='METRIC')\<close> on the frame with the
  columns LABEL, CLOSE, VOLUME: the rows (LABEL, METRIC, value), one block per metric.
\<close>

definition melt :: "(string \<times> string \<times> string) list \<Rightarrow> (string \<times> string \<times> string) list" where
  "melt df = map (\<lambda>(l, c, v). (l, ''CLOSE'', c)) df @ map (\<lambda>(l, c, v). (l, ''VOLUME'', v)) df"

text \<open>
  \<open>pivot(index='METRIC', columns='LABEL', values='value')\<close>: raises \<open>ValueError\<close> when
  an (index, column) pair occurs twice; the index and the columns of the result
  are the distinct values, sorted.
\<close>

definition pivot :: "(string \<times> string \<times> string) list \<Rightarrow> error + wide" where
  "pivot long =
     (let entries = map (\<lambda>(l, m, v). ((m, l), v)) long
      in if \<not> distinct (map fst entries) then Inl ValueError
         else
           let idx = sort (remdups (map (\<lambda>(l, m, v). m) long));
               cols = sort (remdups (map (\<lambda>(l, m, v). l) long))
           in Inr \<lparr>w_index = idx, w_columns = cols,
                   w_values = map (\<lambda>m. map (\<lambda>l. map_of entries (m, l)) cols) idx\<rparr>)"

text \<open>
  \<open>DataFrame.insert(loc=0, column, value)\<close>: raises \<open>ValueError\<close> when the column exists
  or the length of the values is not the length of the index.
\<close>

definition insert0 :: "string \<Rightarrow> string list \<Rightarrow> wide \<Rightarrow> error + wide" where
  "insert0 column vals w =
     (if column \<in> set (w_columns w) then Inl ValueError
      else if length vals \<noteq> length (w_index w) then Inl ValueError
      else Inr (w\<lparr>w_columns := column # w_columns w,
                  w_values := map2 (\<lambda>v r. Some v # r) vals (w_values w)\<rparr>))"

text \<open>
  \<open>reset_index()\<close>: the index becomes the first column, under its name \<open>METRIC\<close>;
  raises \<open>ValueError\<close> when a column of that name exists.
\<close>

definition reset_index :: "wide \<Rightarrow> error + report" where
  "reset_index w =
     (if ''METRIC'' \<in> set (w_columns w) then Inl ValueError
      else Inr \<lparr>columns = ''METRIC'' # w_columns w,
                rows = map2 (\<lambda>m r. Some m # r) (w_index w) (w_values w)\<rparr>)"

subsection \<open>digest\<close>

text \<open>The offsets, in the order of the dictionary \<open>config\<close>: label and days back.\<close>

definition offsets :: "(string \<times> int) list" where
  "offsets = [(''1d'', 1), (''1m'', 30), (''3m'', 90), (''6m'', 180), (''1y'', 365),
     (''3y'', 365 * 3)]"

definition config :: "int \<Rightarrow> (string \<times> int) list" where
  "config as_of_date = map (\<lambda>(label, days). (label, as_of_date - days)) offsets"

text \<open>
  The dictionary comprehension \<open>{label: self.maybe_get_data(symbol, d) for label, d in
  config.items()}\<close>: one query per label, in order, with the default \<open>look_back=5\<close>.
\<close>

fun data_by_label :: "string \<Rightarrow> (string \<times> int) list \<Rightarrow> conn \<Rightarrow> (string \<times> pyobj) list \<times> conn" where
  "data_by_label symbol [] c = ([], c)"
| "data_by_label symbol ((label, d) # cfg) c =
     (let (df, c1) = maybe_get_data symbol d 5 c;
          (rest, c2) = data_by_label symbol cfg c1
      in ((label, df) # rest, c2))"

text \<open>
  \<open>json.dumps(config)\<close>: the values of \<open>config\<close> are dates, which the encoder does not
  serialise, so for a dictionary with an entry it raises \<open>TypeError\<close>.
\<close>

definition json_dumps :: "(string \<times> int) list \<Rightarrow> error + string" where
  "json_dumps cfg = (if cfg = [] then Inr ''{}'' else Inl TypeError)"

text \<open>\<open>raise DigestError(f'... {json.dumps(config)}')\<close>: the message is built first.\<close>

definition raise_digest_error :: "(string \<times> int) list \<Rightarrow> error + unit" where
  "raise_digest_error cfg = (case json_dumps cfg of Inl e \<Rightarrow> Inl e | Inr msg \<Rightarrow> Inl DigestError)"

definition check_no_data :: "(string \<times> int) list \<Rightarrow> pyobj list \<Rightarrow> error + unit" where
  "check_no_data cfg vals =
     (let no_data = filter (\<lambda>df. df = PyNone) vals
      in if length no_data > 0 then raise_digest_error cfg else Inr ())"

text \<open>\<open>df['MKT_DATE'].values[0]\<close>\<close>

fun first_mkt_date :: "pyobj \<Rightarrow> error + int" where
  "first_mkt_date PyNone = Inl TypeError"
| "first_mkt_date (DataFrame []) = Inl IndexError"
| "first_mkt_date (DataFrame (r # rs)) = Inr (MKT_DATE r)"

definition check_duplicates :: "(string \<times> int) list \<Rightarrow> int list \<Rightarrow> error + unit" where
  "check_duplicates cfg dates =
     (if card (set dates) \<noteq> length dates then raise_digest_error cfg else Inr ())"

text \<open>\<open>df['LABEL'] = label\<close>\<close>

fun with_label :: "string \<times> pyobj \<Rightarrow> error + (string \<times> bar) list" where
  "with_label (label, PyNone) = Inl TypeError"
| "with_label (label, DataFrame rs) = Inr (map (Pair label) rs)"

text \<open>\<open>digest.sort_values(by=['MKT_DATE'], ascending=False)\<close> on the labelled rows.\<close>

definition sort_labelled_desc :: "(string \<times> bar) list \<Rightarrow> (string \<times> bar) list" where
  "sort_labelled_desc df = rev (sort_key (\<lambda>(label, r). MKT_DATE r) df)"

text \<open>An exception propagates: the rest runs on a result only.\<close>

definition and_then :: "error + 'a \<Rightarrow> ('a \<Rightarrow> error + 'b) \<Rightarrow> error + 'b" where
  "and_then r f = (case r of Inl e \<Rightarrow> Inl e | Inr x \<Rightarrow> f x)"

text \<open>Lines 107 to 115: the two validations of the frames by label.\<close>

definition validate :: "(string \<times> int) list \<Rightarrow> (string \<times> pyobj) list \<Rightarrow> error + unit" where
  "validate cfg by_label =
     and_then (check_no_data cfg (map snd by_label)) (\<lambda>u.
     and_then (apply_col first_mkt_date (map snd by_label)) (\<lambda>dates.
     check_duplicates cfg dates))"

text \<open>Lines 117 to 122: label the frames, concatenate them, sort by date.\<close>

definition labelled :: "(string \<times> pyobj) list \<Rightarrow> error + (string \<times> bar) list" where
  "labelled by_label =
     and_then (apply_col with_label by_label) (\<lambda>dfs.
     Inr (sort_labelled_desc (concat dfs)))"

text \<open>
  Lines 124 to 131: the columns CLOSE and VOLUME, each row compared with the as-of
  row, and the reduction to the columns LABEL, CLOSE, VOLUME.
\<close>

definition digest_columns ::
  "(rat \<Rightarrow> string) \<Rightarrow> rat \<Rightarrow> rat \<Rightarrow> (string \<times> bar) list
     \<Rightarrow> error + (string \<times> string \<times> string) list" where
  "digest_columns business as_of_close as_of_vol digest0 =
     and_then (apply_col (\<lambda>(label, r). digest_str business (MKT_CLOSE r) as_of_close False)
                 digest0) (\<lambda>closes.
     and_then (apply_col (\<lambda>(label, r).
                 digest_str business (of_int (MKT_VOLUME r)) as_of_vol True) digest0) (\<lambda>volumes.
     Inr (zip (map fst digest0) (zip closes volumes))))"

text \<open>Lines 145 to 163: tall to wide, the as-of column, the symbol column, the index.\<close>

definition reshape ::
  "(rat \<Rightarrow> string) \<Rightarrow> string \<Rightarrow> int \<Rightarrow> rat \<Rightarrow> rat \<Rightarrow> (string \<times> string \<times> string) list
     \<Rightarrow> error + report" where
  "reshape business symbol as_of_date as_of_close as_of_vol digest1 =
     and_then (pivot (melt digest1)) (\<lambda>digest2.
     and_then (insert0 (strftime_a_d_b_y as_of_date)
                 [fmt_comma0 as_of_close, business as_of_vol] digest2) (\<lambda>digest3.
     and_then (insert0 ''SYMBOL'' (replicate (length [''CLOSE'', ''VOLUME'']) symbol) digest3)
       (\<lambda>digest4.
     reset_index digest4)))"

text \<open>
  \<open>as_of_data.iloc[0]\<close>: the first row of the frame, \<open>IndexError\<close> on an empty one.
\<close>

definition iloc0 :: "bar list \<Rightarrow> error + bar" where
  "iloc0 df = (case df of [] \<Rightarrow> Inl IndexError | r # rs \<Rightarrow> Inr r)"

text \<open>
  Lines 107 to 163 of \<open>digest\<close>: from the as-of frame and the frames by label to the
  report.
\<close>

definition digest_frames ::
  "(rat \<Rightarrow> string) \<Rightarrow> string \<Rightarrow> int \<Rightarrow> bar list \<Rightarrow> (string \<times> int) list
     \<Rightarrow> (string \<times> pyobj) list \<Rightarrow> error + report" where
  "digest_frames business symbol as_of_date as_of_data cfg by_label =
     and_then (validate cfg by_label) (\<lambda>u.
     and_then (labelled by_label) (\<lambda>digest0.
     and_then (iloc0 as_of_data) (\<lambda>r0.
     and_then (digest_columns business (MKT_CLOSE r0) (of_int (MKT_VOLUME r0)) digest0)
       (\<lambda>digest1.
     reshape business symbol as_of_date (MKT_CLOSE r0) (of_int (MKT_VOLUME r0)) digest1))))"

text \<open>
  \<open>digest(symbol, as_of_date)\<close>: the result or the exception, and the connection
  with the log of the queries made.
\<close>

definition digest :: "(rat \<Rightarrow> string) \<Rightarrow> string \<Rightarrow> int \<Rightarrow> conn \<Rightarrow> (error + report) \<times> conn" where
  "digest business symbol as_of_date c =
     (case maybe_get_data symbol as_of_date 0 c of
        (PyNone, c1) \<Rightarrow> (Inl AttributeError, c1)
      | (DataFrame as_of_data, c1) \<Rightarrow>
          if as_of_data = [] then (Inl DigestError, c1)
          else
            let cfg = config as_of_date;
                (by_label, c2) = data_by_label symbol cfg c1
            in (digest_frames business symbol as_of_date as_of_data cfg by_label, c2))"


text \<open>The report of a result; the frame with no column for an exception.\<close>

definition report_of :: "error + report \<Rightarrow> report" where
  "report_of res = (case res of Inl e \<Rightarrow> \<lparr>columns = [], rows = []\<rparr> | Inr rep \<Rightarrow> rep)"

text \<open>A bar of the symbol \<open>ABC\<close> with the given date, close and volume, for the examples.\<close>

definition abc_bar :: "int \<Rightarrow> rat \<Rightarrow> 'v \<Rightarrow> 'v mkt_row" where
  "abc_bar d cl v = \<lparr>MKT_SYMBOL = ''ABC'', MKT_DATE = d, MKT_OPEN = cl, MKT_HIGH = cl,
     MKT_LOW = cl, MKT_CLOSE = cl, MKT_VOLUME = v\<rparr>"

text \<open>
  A table for the examples: the as-of bar of 2024-01-02 (ordinal 738887), the bar of
  the day before, and one bar at each of the other five offsets.
\<close>

definition abc_store :: conn where
  "abc_store = \<lparr>MKT_DATA = [abc_bar 738887 100 1000000, abc_bar 738886 90 500000,
      abc_bar 738857 80 400000, abc_bar 738797 70 300000, abc_bar 738707 60 200000,
      abc_bar 738522 50 100000, abc_bar 737792 40 50000], selects = []\<rparr>"

text \<open>
  A stand-in for \<open>ballpark.business\<close> in the examples: it abbreviates the two volumes
  of the end-to-end scenario.
\<close>

definition example_business :: "rat \<Rightarrow> string" where
  "example_business x = (if x = 500000 then ''500K'' else if x = 1000000 then ''1M'' else ''n'')"

section \<open>Basic facts\<close>

lemma and_then_simps [simp]:
  "and_then (Inl e) f = Inl e" "and_then (Inr x) f = f x"
  by (simp_all add: and_then_def)

lemma maybe_get_data_snd:
  "snd (maybe_get_data symbol d w c) = c\<lparr>selects := selects c @ [(symbol, d - w, d)]\<rparr>"
  by (simp add: maybe_get_data_def dao_select_def Let_def)

lemma maybe_get_data_fst:
  "fst (maybe_get_data symbol d w c) =
     DataFrame (take 1 (sort_values_desc (filter (in_range symbol (d - w) d) (MKT_DATA c))))"
  by (simp add: maybe_get_data_def dao_select_def Let_def sort_values_desc_def)

lemma sort_values_desc_Nil_iff: "sort_values_desc df = [] \<longleftrightarrow> df = []"
proof -
  have "length (sort_values_desc df) = length df" by (simp add: sort_values_desc_def)
  then show ?thesis by (metis length_0_conv)
qed





lemma take1_rev_sort_key:
  assumes "xs \<noteq> []"
  shows "\<exists>b. take 1 (rev (sort_key f xs)) = [b] \<and> b \<in> set xs \<and> (\<forall>r \<in> set xs. f r \<le> f b)"
proof -
  have "rev (sort_key f xs) \<noteq> []" using assms by (metis length_0_conv length_rev length_sort)
  then obtain b bs where ys: "rev (sort_key f xs) = b # bs" by (cases "rev (sort_key f xs)") auto
  have "sorted (map f (sort_key f xs))" by simp
  then have "sorted (rev (map f (rev (sort_key f xs))))" by (simp add: rev_map)
  then have "sorted (rev (map f bs) @ [f b])" by (simp add: ys)
  then have le: "\<forall>x \<in> set bs. f x \<le> f b" by (auto simp: sorted_append)
  have s: "set xs = set (b # bs)" using ys by (metis set_rev set_sort)
  show ?thesis using le s by (auto simp: ys)
qed

lemma primary_key_unique:
  assumes "primary_key_ok t" "r \<in> set t" "b \<in> set t"
    "MKT_SYMBOL r = MKT_SYMBOL b" "MKT_DATE r = MKT_DATE b"
  shows "r = b"
proof -
  have "inj_on pkey (set t)" using assms(1) by (simp add: primary_key_ok_def distinct_map)
  moreover have "pkey r = pkey b" using assms(4,5) by (simp add: pkey_def)
  ultimately show ?thesis using assms(2,3) by (auto dest: inj_onD)
qed












section \<open>The stages of digest\<close>

lemma data_by_label_eq:
  "data_by_label symbol cfg c =
     (map (\<lambda>(l, t). (l, fst (maybe_get_data symbol t 5 c))) cfg,
      c\<lparr>selects := selects c @ map (\<lambda>(l, t). (symbol, t - 5, t)) cfg\<rparr>)"
proof (induction cfg arbitrary: c)
  case Nil
  then show ?case by simp
next
  case (Cons p cfg)
  obtain l t where p: "p = (l, t)" by (cases p)
  have m: "maybe_get_data symbol t 5 c
      = (fst (maybe_get_data symbol t 5 c), c\<lparr>selects := selects c @ [(symbol, t - 5, t)]\<rparr>)"
    by (metis maybe_get_data_snd prod.collapse)
  have f: "fst (maybe_get_data symbol t' 5 (c\<lparr>selects := s\<rparr>)) = fst (maybe_get_data symbol t' 5 c)"
    for t' s by (simp add: maybe_get_data_fst)
  show ?case
    unfolding p data_by_label.simps
    apply (subst m)
    apply (simp add: Cons.IH f)
    done
qed

lemma digest_eq:
  "digest business symbol d c =
     (case take 1 (sort_values_desc (filter (in_range symbol d d) (MKT_DATA c))) of
        [] \<Rightarrow> (Inl DigestError, c\<lparr>selects := selects c @ [(symbol, d, d)]\<rparr>)
      | a # as \<Rightarrow>
         (digest_frames business symbol d (a # as) (config d)
            (map (\<lambda>(l, t). (l, fst (maybe_get_data symbol t 5 c))) (config d)),
          c\<lparr>selects := selects c @ (symbol, d, d) # map (\<lambda>(l, t). (symbol, t - 5, t)) (config d)\<rparr>))"
proof -
  have m: "maybe_get_data symbol d 0 c
      = (DataFrame (take 1 (sort_values_desc (filter (in_range symbol d d) (MKT_DATA c)))),
         c\<lparr>selects := selects c @ [(symbol, d, d)]\<rparr>)"
    using maybe_get_data_fst [of symbol d 0 c] maybe_get_data_snd [of symbol d 0 c]
    by (metis diff_zero prod.collapse)
  have f: "fst (maybe_get_data symbol t' 5 (c\<lparr>selects := s\<rparr>)) = fst (maybe_get_data symbol t' 5 c)"
    for t' s by (simp add: maybe_get_data_fst)
  show ?thesis
    unfolding digest_def m
    by (simp add: data_by_label_eq f Let_def split: list.splits)
qed

lemma check_duplicates_distinct:
  "distinct dates \<Longrightarrow> check_duplicates cfg dates = Inr ()"
  by (simp add: check_duplicates_def distinct_card)

lemma check_no_data_frames:
  "PyNone \<notin> set vals \<Longrightarrow> check_no_data cfg vals = Inr ()"
  by (simp add: check_no_data_def Let_def filter_empty_conv)

lemma sort_six_desc:
  fixes f :: "'a \<Rightarrow> int"
  assumes "f x1 > f x2" "f x2 > f x3" "f x3 > f x4" "f x4 > f x5" "f x5 > f x6"
  shows "rev (sort_key f [x1, x2, x3, x4, x5, x6]) = [x1, x2, x3, x4, x5, x6]"
  using assms by simp

lemma validate_six:
  assumes "MKT_DATE b1 > MKT_DATE b2" "MKT_DATE b2 > MKT_DATE b3" "MKT_DATE b3 > MKT_DATE b4"
    "MKT_DATE b4 > MKT_DATE b5" "MKT_DATE b5 > MKT_DATE b6"
  shows "validate cfg [(l1, DataFrame [b1]), (l2, DataFrame [b2]), (l3, DataFrame [b3]),
      (l4, DataFrame [b4]), (l5, DataFrame [b5]), (l6, DataFrame [b6])] = Inr ()"
proof -
  have "distinct [MKT_DATE b1, MKT_DATE b2, MKT_DATE b3, MKT_DATE b4, MKT_DATE b5, MKT_DATE b6]"
    using assms by simp
  then show ?thesis
    by (simp add: validate_def check_no_data_frames check_duplicates_distinct)
qed

lemma labelled_six:
  assumes "MKT_DATE b1 > MKT_DATE b2" "MKT_DATE b2 > MKT_DATE b3" "MKT_DATE b3 > MKT_DATE b4"
    "MKT_DATE b4 > MKT_DATE b5" "MKT_DATE b5 > MKT_DATE b6"
  shows "labelled [(l1, DataFrame [b1]), (l2, DataFrame [b2]), (l3, DataFrame [b3]),
      (l4, DataFrame [b4]), (l5, DataFrame [b5]), (l6, DataFrame [b6])]
    = Inr [(l1, b1), (l2, b2), (l3, b3), (l4, b4), (l5, b5), (l6, b6)]"
proof -
  have "rev (sort_key (\<lambda>(label, r). MKT_DATE r)
           [(l1, b1), (l2, b2), (l3, b3), (l4, b4), (l5, b5), (l6, b6)])
        = [(l1, b1), (l2, b2), (l3, b3), (l4, b4), (l5, b5), (l6, b6)]"
    by (rule sort_six_desc) (simp_all add: assms)
  then show ?thesis by (simp add: labelled_def sort_labelled_desc_def)
qed

lemma length_strftime: "length (strftime_a_d_b_y d) = 13"
  by (simp add: strftime_a_d_b_y_def day_abbr_def month_abbr_def two_digits_def Let_def
      split: prod.splits)

lemma strftime_not_column:
  "length s \<noteq> 13 \<Longrightarrow> strftime_a_d_b_y d \<noteq> s"
  "length s \<noteq> 13 \<Longrightarrow> s \<noteq> strftime_a_d_b_y d"
  using length_strftime by blast+

lemma reshape_six:
  "reshape business symbol d ac av
     [(''1d'', c1, v1), (''1m'', c2, v2), (''3m'', c3, v3), (''6m'', c4, v4),
      (''1y'', c5, v5), (''3y'', c6, v6)]
   = Inr \<lparr>columns = [''METRIC'', ''SYMBOL'', strftime_a_d_b_y d,
                      ''1d'', ''1m'', ''1y'', ''3m'', ''3y'', ''6m''],
          rows = [[Some ''CLOSE'', Some symbol, Some (fmt_comma0 ac),
                   Some c1, Some c2, Some c5, Some c3, Some c6, Some c4],
                  [Some ''VOLUME'', Some symbol, Some (business av),
                   Some v1, Some v2, Some v5, Some v3, Some v6, Some v4]]\<rparr>"
proof -
  have p: "pivot (melt [(''1d'', c1, v1), (''1m'', c2, v2), (''3m'', c3, v3), (''6m'', c4, v4),
      (''1y'', c5, v5), (''3y'', c6, v6)])
    = Inr \<lparr>w_index = [''CLOSE'', ''VOLUME''],
           w_columns = [''1d'', ''1m'', ''1y'', ''3m'', ''3y'', ''6m''],
           w_values = [[Some c1, Some c2, Some c5, Some c3, Some c6, Some c4],
                       [Some v1, Some v2, Some v5, Some v3, Some v6, Some v4]]\<rparr>"
    by (simp add: pivot_def melt_def Let_def)
  show ?thesis
    by (simp add: reshape_def p insert0_def reset_index_def strftime_not_column)
qed


lemma digest_columns_six:
  assumes "digest_str business (MKT_CLOSE b1) ac False = Inr c1"
    "digest_str business (MKT_CLOSE b2) ac False = Inr c2"
    "digest_str business (MKT_CLOSE b3) ac False = Inr c3"
    "digest_str business (MKT_CLOSE b4) ac False = Inr c4"
    "digest_str business (MKT_CLOSE b5) ac False = Inr c5"
    "digest_str business (MKT_CLOSE b6) ac False = Inr c6"
    "digest_str business (of_int (MKT_VOLUME b1)) av True = Inr v1"
    "digest_str business (of_int (MKT_VOLUME b2)) av True = Inr v2"
    "digest_str business (of_int (MKT_VOLUME b3)) av True = Inr v3"
    "digest_str business (of_int (MKT_VOLUME b4)) av True = Inr v4"
    "digest_str business (of_int (MKT_VOLUME b5)) av True = Inr v5"
    "digest_str business (of_int (MKT_VOLUME b6)) av True = Inr v6"
  shows "digest_columns business ac av
           [(l1, b1), (l2, b2), (l3, b3), (l4, b4), (l5, b5), (l6, b6)]
         = Inr [(l1, c1, v1), (l2, c2, v2), (l3, c3, v3), (l4, c4, v4), (l5, c5, v5),
                (l6, c6, v6)]"
  by (simp add: digest_columns_def assms)

lemma and_then_Inr: "and_then r f = Inr y \<Longrightarrow> \<exists>x. r = Inr x \<and> f x = Inr y"
  by (cases r) simp_all

lemma apply_col_Inr:
  "apply_col f xs = Inr ys \<Longrightarrow> list_all2 (\<lambda>x y. f x = Inr y) xs ys"
  by (induction xs arbitrary: ys) (auto split: sum.splits)

lemma first_mkt_date_Inr:
  "first_mkt_date v = Inr t \<Longrightarrow> \<exists>r rs. v = DataFrame (r # rs)"
  by (cases v rule: first_mkt_date.cases) simp_all

lemma resolved_single:
  assumes "fst (maybe_get_data symbol t w c) = DataFrame (b # bs)"
  shows "bs = [] \<and> in_range symbol (t - w) t b \<and> b \<in> set (MKT_DATA c)"
proof -
  let ?xs = "sort_values_desc (filter (in_range symbol (t - w) t) (MKT_DATA c))"
  have e: "take 1 ?xs = b # bs" using assms by (simp add: maybe_get_data_fst)
  then have "length (b # bs) \<le> 1" by (metis length_take min.cobounded2)
  then have bs: "bs = []" by simp
  have "b \<in> set ?xs" using e by (metis in_set_takeD list.set_intros(1))
  then have "b \<in> set (filter (in_range symbol (t - w) t) (MKT_DATA c))"
    by (simp add: sort_values_desc_def)
  then show ?thesis using bs by simp
qed

lemma config_eq:
  "config d = [(''1d'', d - 1), (''1m'', d - 30), (''3m'', d - 90), (''6m'', d - 180),
     (''1y'', d - 365), (''3y'', d - 1095)]"
  by (simp add: config_def offsets_def)

lemma digest_frames_six:
  assumes dates: "MKT_DATE b1 > MKT_DATE b2" "MKT_DATE b2 > MKT_DATE b3"
    "MKT_DATE b3 > MKT_DATE b4" "MKT_DATE b4 > MKT_DATE b5" "MKT_DATE b5 > MKT_DATE b6"
  shows "digest_frames business symbol d (a # as) cfg
      [(''1d'', DataFrame [b1]), (''1m'', DataFrame [b2]), (''3m'', DataFrame [b3]),
       (''6m'', DataFrame [b4]), (''1y'', DataFrame [b5]), (''3y'', DataFrame [b6])]
    = and_then (digest_columns business (MKT_CLOSE a) (of_int (MKT_VOLUME a))
         [(''1d'', b1), (''1m'', b2), (''3m'', b3), (''6m'', b4), (''1y'', b5), (''3y'', b6)])
       (reshape business symbol d (MKT_CLOSE a) (of_int (MKT_VOLUME a)))"
  unfolding digest_frames_def validate_six [OF dates] labelled_six [OF dates]
  by (simp add: iloc0_def)

lemma list_all2_six:
  "list_all2 P [x1, x2, x3, x4, x5, x6] ys \<Longrightarrow>
     \<exists>y1 y2 y3 y4 y5 y6. ys = [y1, y2, y3, y4, y5, y6]
       \<and> P x1 y1 \<and> P x2 y2 \<and> P x3 y3 \<and> P x4 y4 \<and> P x5 y5 \<and> P x6 y6"
  by (auto simp: list_all2_Cons1)

lemma frame_of_date:
  assumes "first_mkt_date (fst (maybe_get_data symbol t w c)) = Inr u"
  shows "\<exists>b. fst (maybe_get_data symbol t w c) = DataFrame [b]
            \<and> in_range symbol (t - w) t b \<and> b \<in> set (MKT_DATA c)"
proof -
  from first_mkt_date_Inr [OF assms] obtain r rs
    where e: "fst (maybe_get_data symbol t w c) = DataFrame (r # rs)" by blast
  from resolved_single [OF e] show ?thesis using e by simp
qed

lemma digest_Inr_form:
  assumes ok: "fst (digest business symbol d c) = Inr rep"
  shows "\<exists>a b1 b2 b3 b4 b5 b6 c1 c2 c3 c4 c5 c6 v1 v2 v3 v4 v5 v6.
     fst (maybe_get_data symbol d 0 c) = DataFrame [a]
     \<and> fst (maybe_get_data symbol (d - 1) 5 c) = DataFrame [b1]
     \<and> fst (maybe_get_data symbol (d - 30) 5 c) = DataFrame [b2]
     \<and> fst (maybe_get_data symbol (d - 90) 5 c) = DataFrame [b3]
     \<and> fst (maybe_get_data symbol (d - 180) 5 c) = DataFrame [b4]
     \<and> fst (maybe_get_data symbol (d - 365) 5 c) = DataFrame [b5]
     \<and> fst (maybe_get_data symbol (d - 1095) 5 c) = DataFrame [b6]
     \<and> digest_str business (MKT_CLOSE b1) (MKT_CLOSE a) False = Inr c1
     \<and> digest_str business (MKT_CLOSE b2) (MKT_CLOSE a) False = Inr c2
     \<and> digest_str business (MKT_CLOSE b3) (MKT_CLOSE a) False = Inr c3
     \<and> digest_str business (MKT_CLOSE b4) (MKT_CLOSE a) False = Inr c4
     \<and> digest_str business (MKT_CLOSE b5) (MKT_CLOSE a) False = Inr c5
     \<and> digest_str business (MKT_CLOSE b6) (MKT_CLOSE a) False = Inr c6
     \<and> digest_str business (of_int (MKT_VOLUME b1)) (of_int (MKT_VOLUME a)) True = Inr v1
     \<and> digest_str business (of_int (MKT_VOLUME b2)) (of_int (MKT_VOLUME a)) True = Inr v2
     \<and> digest_str business (of_int (MKT_VOLUME b3)) (of_int (MKT_VOLUME a)) True = Inr v3
     \<and> digest_str business (of_int (MKT_VOLUME b4)) (of_int (MKT_VOLUME a)) True = Inr v4
     \<and> digest_str business (of_int (MKT_VOLUME b5)) (of_int (MKT_VOLUME a)) True = Inr v5
     \<and> digest_str business (of_int (MKT_VOLUME b6)) (of_int (MKT_VOLUME a)) True = Inr v6
     \<and> rep = \<lparr>columns = [''METRIC'', ''SYMBOL'', strftime_a_d_b_y d,
                      ''1d'', ''1m'', ''1y'', ''3m'', ''3y'', ''6m''],
          rows = [[Some ''CLOSE'', Some symbol, Some (fmt_comma0 (MKT_CLOSE a)),
                   Some c1, Some c2, Some c5, Some c3, Some c6, Some c4],
                  [Some ''VOLUME'', Some symbol, Some (business (of_int (MKT_VOLUME a))),
                   Some v1, Some v2, Some v5, Some v3, Some v6, Some v4]]\<rparr>"
proof -
  let ?F = "\<lambda>n. fst (maybe_get_data symbol (d - n) 5 c)"
  let ?BL = "[(''1d'', ?F 1), (''1m'', ?F 30), (''3m'', ?F 90), (''6m'', ?F 180),
      (''1y'', ?F 365), (''3y'', ?F 1095)]"
  let ?A = "take 1 (sort_values_desc (filter (in_range symbol d d) (MKT_DATA c)))"
  have A: "fst (maybe_get_data symbol d 0 c) = DataFrame ?A"
    by (simp add: maybe_get_data_fst)
  have "?A \<noteq> []"
  proof
    assume "?A = []"
    then have "fst (digest business symbol d c) = Inl DigestError"
      by (simp add: digest_eq del: One_nat_def)
    then show False using ok by simp
  qed
  then obtain a as where aas: "?A = a # as" by (cases ?A) auto
  from resolved_single [of symbol d 0 c a as] A aas have "as = []" by simp
  then have a: "?A = [a]" using aas by simp
  have df: "digest_frames business symbol d [a] (config d) ?BL = Inr rep"
    using ok by (simp add: digest_eq a config_eq del: One_nat_def)
  then obtain u where "validate (config d) ?BL = Inr u"
    unfolding digest_frames_def by (blast dest: and_then_Inr)
  then obtain dates where "apply_col first_mkt_date (map snd ?BL) = Inr dates"
    unfolding validate_def by (blast dest: and_then_Inr)
  from apply_col_Inr [OF this]
  have fd: "\<exists>u. first_mkt_date (?F 1) = Inr u" "\<exists>u. first_mkt_date (?F 30) = Inr u"
    "\<exists>u. first_mkt_date (?F 90) = Inr u" "\<exists>u. first_mkt_date (?F 180) = Inr u"
    "\<exists>u. first_mkt_date (?F 365) = Inr u" "\<exists>u. first_mkt_date (?F 1095) = Inr u"
    by (auto simp: list_all2_Cons1)
  from fd(1) frame_of_date obtain b1 where b1: "?F 1 = DataFrame [b1]"
    "in_range symbol (d - 1 - 5) (d - 1) b1" by blast
  from fd(2) frame_of_date obtain b2 where b2: "?F 30 = DataFrame [b2]"
    "in_range symbol (d - 30 - 5) (d - 30) b2" by blast
  from fd(3) frame_of_date obtain b3 where b3: "?F 90 = DataFrame [b3]"
    "in_range symbol (d - 90 - 5) (d - 90) b3" by blast
  from fd(4) frame_of_date obtain b4 where b4: "?F 180 = DataFrame [b4]"
    "in_range symbol (d - 180 - 5) (d - 180) b4" by blast
  from fd(5) frame_of_date obtain b5 where b5: "?F 365 = DataFrame [b5]"
    "in_range symbol (d - 365 - 5) (d - 365) b5" by blast
  from fd(6) frame_of_date obtain b6 where b6: "?F 1095 = DataFrame [b6]"
    "in_range symbol (d - 1095 - 5) (d - 1095) b6" by blast
  have dates: "MKT_DATE b1 > MKT_DATE b2" "MKT_DATE b2 > MKT_DATE b3"
    "MKT_DATE b3 > MKT_DATE b4" "MKT_DATE b4 > MKT_DATE b5" "MKT_DATE b5 > MKT_DATE b6"
    using b1(2) b2(2) b3(2) b4(2) b5(2) b6(2) by (simp_all add: in_range_def)
  let ?L = "[(''1d'', b1), (''1m'', b2), (''3m'', b3), (''6m'', b4), (''1y'', b5), (''3y'', b6)]"
  let ?ac = "MKT_CLOSE a"
  let ?av = "of_int (MKT_VOLUME a) :: rat"
  from df have "and_then (digest_columns business ?ac ?av ?L)
       (reshape business symbol d ?ac ?av) = Inr rep"
    by (simp add: b1(1) b2(1) b3(1) b4(1) b5(1) b6(1) digest_frames_six [OF dates])
  then obtain D where D: "digest_columns business ?ac ?av ?L = Inr D"
    "reshape business symbol d ?ac ?av D = Inr rep"
    by (blast dest: and_then_Inr)
  from D(1) obtain closes volumes where cv:
    "apply_col (\<lambda>(label, r). digest_str business (MKT_CLOSE r) ?ac False) ?L = Inr closes"
    "apply_col (\<lambda>(label, r). digest_str business (of_int (MKT_VOLUME r)) ?av True) ?L
       = Inr volumes"
    unfolding digest_columns_def by (blast dest: and_then_Inr)
  from list_all2_six [OF apply_col_Inr [OF cv(1)]]
  obtain c1 c2 c3 c4 c5 c6 where cs:
    "digest_str business (MKT_CLOSE b1) ?ac False = Inr c1"
    "digest_str business (MKT_CLOSE b2) ?ac False = Inr c2"
    "digest_str business (MKT_CLOSE b3) ?ac False = Inr c3"
    "digest_str business (MKT_CLOSE b4) ?ac False = Inr c4"
    "digest_str business (MKT_CLOSE b5) ?ac False = Inr c5"
    "digest_str business (MKT_CLOSE b6) ?ac False = Inr c6"
    by auto
  from list_all2_six [OF apply_col_Inr [OF cv(2)]]
  obtain v1 v2 v3 v4 v5 v6 where vs:
    "digest_str business (of_int (MKT_VOLUME b1)) ?av True = Inr v1"
    "digest_str business (of_int (MKT_VOLUME b2)) ?av True = Inr v2"
    "digest_str business (of_int (MKT_VOLUME b3)) ?av True = Inr v3"
    "digest_str business (of_int (MKT_VOLUME b4)) ?av True = Inr v4"
    "digest_str business (of_int (MKT_VOLUME b5)) ?av True = Inr v5"
    "digest_str business (of_int (MKT_VOLUME b6)) ?av True = Inr v6"
    by auto
  have "D = [(''1d'', c1, v1), (''1m'', c2, v2), (''3m'', c3, v3), (''6m'', c4, v4),
      (''1y'', c5, v5), (''3y'', c6, v6)]"
    using D(1) digest_columns_six [OF cs vs] by simp
  then have "rep = \<lparr>columns = [''METRIC'', ''SYMBOL'', strftime_a_d_b_y d,
                      ''1d'', ''1m'', ''1y'', ''3m'', ''3y'', ''6m''],
          rows = [[Some ''CLOSE'', Some symbol, Some (fmt_comma0 ?ac),
                   Some c1, Some c2, Some c5, Some c3, Some c6, Some c4],
                  [Some ''VOLUME'', Some symbol, Some (business ?av),
                   Some v1, Some v2, Some v5, Some v3, Some v6, Some v4]]\<rparr>"
    using D(2) by (simp add: reshape_six)
  moreover have "fst (maybe_get_data symbol d 0 c) = DataFrame [a]"
    using A a by simp
  ultimately show ?thesis
    by (intro exI conjI) (rule b1(1) b2(1) b3(1) b4(1) b5(1) b6(1) cs vs | assumption)+
qed

lemma digest_str_Inr_iff:
  "digest_str business v c bp = Inr s \<longleftrightarrow>
     v \<noteq> 0 \<and> s = (if bp then business v else fmt_comma0 v) @ '' (''
        @ indicator (py_int ((c - v) / v * 100)) @ '' ''
        @ str_int (py_int ((c - v) / v * 100)) @ ''%)''"
  by (auto simp: digest_str_def digest_pct_def)

lemma digest_Inr_intro:
  assumes a: "fst (maybe_get_data symbol d 0 c) = DataFrame [a]"
    and F: "fst (maybe_get_data symbol (d - 1) 5 c) = DataFrame [b1]"
      "fst (maybe_get_data symbol (d - 30) 5 c) = DataFrame [b2]"
      "fst (maybe_get_data symbol (d - 90) 5 c) = DataFrame [b3]"
      "fst (maybe_get_data symbol (d - 180) 5 c) = DataFrame [b4]"
      "fst (maybe_get_data symbol (d - 365) 5 c) = DataFrame [b5]"
      "fst (maybe_get_data symbol (d - 1095) 5 c) = DataFrame [b6]"
    and cs: "digest_str business (MKT_CLOSE b1) (MKT_CLOSE a) False = Inr c1"
      "digest_str business (MKT_CLOSE b2) (MKT_CLOSE a) False = Inr c2"
      "digest_str business (MKT_CLOSE b3) (MKT_CLOSE a) False = Inr c3"
      "digest_str business (MKT_CLOSE b4) (MKT_CLOSE a) False = Inr c4"
      "digest_str business (MKT_CLOSE b5) (MKT_CLOSE a) False = Inr c5"
      "digest_str business (MKT_CLOSE b6) (MKT_CLOSE a) False = Inr c6"
    and vs: "digest_str business (of_int (MKT_VOLUME b1)) (of_int (MKT_VOLUME a)) True = Inr v1"
      "digest_str business (of_int (MKT_VOLUME b2)) (of_int (MKT_VOLUME a)) True = Inr v2"
      "digest_str business (of_int (MKT_VOLUME b3)) (of_int (MKT_VOLUME a)) True = Inr v3"
      "digest_str business (of_int (MKT_VOLUME b4)) (of_int (MKT_VOLUME a)) True = Inr v4"
      "digest_str business (of_int (MKT_VOLUME b5)) (of_int (MKT_VOLUME a)) True = Inr v5"
      "digest_str business (of_int (MKT_VOLUME b6)) (of_int (MKT_VOLUME a)) True = Inr v6"
  shows "fst (digest business symbol d c)
    = Inr \<lparr>columns = [''METRIC'', ''SYMBOL'', strftime_a_d_b_y d,
                      ''1d'', ''1m'', ''1y'', ''3m'', ''3y'', ''6m''],
          rows = [[Some ''CLOSE'', Some symbol, Some (fmt_comma0 (MKT_CLOSE a)),
                   Some c1, Some c2, Some c5, Some c3, Some c6, Some c4],
                  [Some ''VOLUME'', Some symbol, Some (business (of_int (MKT_VOLUME a))),
                   Some v1, Some v2, Some v5, Some v3, Some v6, Some v4]]\<rparr>"
proof -
  have A: "take 1 (sort_values_desc (filter (in_range symbol d d) (MKT_DATA c))) = [a]"
    using a by (simp add: maybe_get_data_fst del: One_nat_def)
  have r: "in_range symbol (d - 1 - 5) (d - 1) b1" "in_range symbol (d - 30 - 5) (d - 30) b2"
    "in_range symbol (d - 90 - 5) (d - 90) b3" "in_range symbol (d - 180 - 5) (d - 180) b4"
    "in_range symbol (d - 365 - 5) (d - 365) b5" "in_range symbol (d - 1095 - 5) (d - 1095) b6"
    using resolved_single [OF F(1)] resolved_single [OF F(2)] resolved_single [OF F(3)]
      resolved_single [OF F(4)] resolved_single [OF F(5)] resolved_single [OF F(6)]
    by simp_all
  have dates: "MKT_DATE b1 > MKT_DATE b2" "MKT_DATE b2 > MKT_DATE b3"
    "MKT_DATE b3 > MKT_DATE b4" "MKT_DATE b4 > MKT_DATE b5" "MKT_DATE b5 > MKT_DATE b6"
    using r by (simp_all add: in_range_def)
  show ?thesis
    by (simp add: digest_eq A config_eq F digest_frames_six [OF dates]
        digest_columns_six [OF cs vs] reshape_six del: One_nat_def)
qed

lemma resolved_cases:
  "fst (maybe_get_data symbol t w c) = DataFrame []
   \<or> (\<exists>b. fst (maybe_get_data symbol t w c) = DataFrame [b])"
proof (cases "take 1 (sort_values_desc (filter (in_range symbol (t - w) t) (MKT_DATA c)))")
  case Nil
  then show ?thesis by (simp add: maybe_get_data_fst del: One_nat_def)
next
  case (Cons b bs)
  then have e: "fst (maybe_get_data symbol t w c) = DataFrame (b # bs)"
    by (simp add: maybe_get_data_fst del: One_nat_def)
  from resolved_single [OF e] e show ?thesis by simp
qed


subsection \<open>The digest of the example table\<close>

lemma abc_resolved:
  "fst (maybe_get_data ''ABC'' 738887 0 abc_store) = DataFrame [abc_bar 738887 100 1000000]"
  "fst (maybe_get_data ''ABC'' (738887 - 1) 5 abc_store) = DataFrame [abc_bar 738886 90 500000]"
  "fst (maybe_get_data ''ABC'' (738887 - 30) 5 abc_store) = DataFrame [abc_bar 738857 80 400000]"
  "fst (maybe_get_data ''ABC'' (738887 - 90) 5 abc_store) = DataFrame [abc_bar 738797 70 300000]"
  "fst (maybe_get_data ''ABC'' (738887 - 180) 5 abc_store) = DataFrame [abc_bar 738707 60 200000]"
  "fst (maybe_get_data ''ABC'' (738887 - 365) 5 abc_store) = DataFrame [abc_bar 738522 50 100000]"
  "fst (maybe_get_data ''ABC'' (738887 - 1095) 5 abc_store) = DataFrame [abc_bar 737792 40 50000]"
  by (simp_all add: maybe_get_data_fst abc_store_def in_range_def abc_bar_def
      sort_values_desc_def)

lemma abc_strftime: "strftime_a_d_b_y 738887 = ''Tue 02 Jan 24''"
  by (simp add: strftime_a_d_b_y_def ord2ymd_def day_abbr_def month_abbr_def two_digits_def
      days_before_month_def days_in_month_def digit_char_def Let_def)

lemma abc_digest:
  "fst (digest example_business ''ABC'' 738887 abc_store)
   = Inr \<lparr>columns = [''METRIC'', ''SYMBOL'', ''Tue 02 Jan 24'',
                      ''1d'', ''1m'', ''1y'', ''3m'', ''3y'', ''6m''],
          rows = [[Some ''CLOSE'', Some ''ABC'', Some ''100'',
                   Some (''90 ('' @ arrow_up @ '' 11%)''), Some (''80 ('' @ arrow_up @ '' 25%)''),
                   Some (''50 ('' @ arrow_up @ '' 100%)''), Some (''70 ('' @ arrow_up @ '' 42%)''),
                   Some (''40 ('' @ arrow_up @ '' 150%)''), Some (''60 ('' @ arrow_up @ '' 66%)'')],
                  [Some ''VOLUME'', Some ''ABC'', Some ''1M'',
                   Some (''500K ('' @ arrow_up @ '' 100%)''), Some (''n ('' @ arrow_up @ '' 150%)''),
                   Some (''n ('' @ arrow_up @ '' 900%)''), Some (''n ('' @ arrow_up @ '' 233%)''),
                   Some (''n ('' @ arrow_up @ '' 1900%)''), Some (''n ('' @ arrow_up @ '' 400%)'')]]\<rparr>"
proof -
  have cs: "digest_str example_business 90 100 False = Inr (''90 ('' @ arrow_up @ '' 11%)'')"
    "digest_str example_business 80 100 False = Inr (''80 ('' @ arrow_up @ '' 25%)'')"
    "digest_str example_business 70 100 False = Inr (''70 ('' @ arrow_up @ '' 42%)'')"
    "digest_str example_business 60 100 False = Inr (''60 ('' @ arrow_up @ '' 66%)'')"
    "digest_str example_business 50 100 False = Inr (''50 ('' @ arrow_up @ '' 100%)'')"
    "digest_str example_business 40 100 False = Inr (''40 ('' @ arrow_up @ '' 150%)'')"
    by code_simp+
  have vs: "digest_str example_business 500000 1000000 True
        = Inr (''500K ('' @ arrow_up @ '' 100%)'')"
    "digest_str example_business 400000 1000000 True = Inr (''n ('' @ arrow_up @ '' 150%)'')"
    "digest_str example_business 300000 1000000 True = Inr (''n ('' @ arrow_up @ '' 233%)'')"
    "digest_str example_business 200000 1000000 True = Inr (''n ('' @ arrow_up @ '' 400%)'')"
    "digest_str example_business 100000 1000000 True = Inr (''n ('' @ arrow_up @ '' 900%)'')"
    "digest_str example_business 50000 1000000 True = Inr (''n ('' @ arrow_up @ '' 1900%)'')"
    by code_simp+
  have f: "fmt_comma0 100 = ''100''" "example_business 1000000 = ''1M''" by code_simp+
  show ?thesis
    apply (subst digest_Inr_intro [OF abc_resolved])
    apply (simp_all add: abc_bar_def cs vs f abc_strftime)
    done
qed

section \<open>The resolver never returns None\<close>

text \<open>
  Claim C10. For every symbol, date and look-back window \<open>maybe_get_data\<close> returns a
  DataFrame, never \<open>None\<close>; it returns the empty DataFrame exactly when the table
  has no row of the symbol in the window; and the validation of \<open>digest\<close> for
  missing offsets passes exactly when none of the values it is given is \<open>None\<close>.
\<close>

theorem maybe_get_data_never_none:
  "fst (maybe_get_data symbol d w c) \<noteq> PyNone
   \<and> (fst (maybe_get_data symbol d w c) = DataFrame [])
       = (filter (in_range symbol (d - w) d) (MKT_DATA c) = [])
   \<and> (check_no_data cfg vals = Inr ()) = (PyNone \<notin> set vals)"
proof -
  have a: "fst (maybe_get_data symbol d w c) \<noteq> PyNone"
    by (simp add: maybe_get_data_fst)
  have b: "(fst (maybe_get_data symbol d w c) = DataFrame [])
       = (filter (in_range symbol (d - w) d) (MKT_DATA c) = [])"
    by (simp add: maybe_get_data_fst sort_values_desc_Nil_iff)
  have c: "(check_no_data cfg vals = Inr ()) = (PyNone \<notin> set vals)"
    by (auto simp: check_no_data_def Let_def raise_digest_error_def filter_empty_conv
        split: sum.splits)
  from a b c show ?thesis by blast
qed

section \<open>Missing as-of data\<close>

text \<open>
  Claim C6. When the table has no row of the symbol dated exactly the as-of date,
  \<open>digest\<close> raises \<open>DigestError\<close> and the only query it has made is the one for the
  as-of date with a look-back of zero: no offset is resolved.
\<close>

theorem digest_missing_as_of:
  assumes "\<not> (\<exists>r \<in> set (MKT_DATA c). MKT_SYMBOL r = symbol \<and> MKT_DATE r = as_of_date)"
  shows "digest business symbol as_of_date c
         = (Inl DigestError, c\<lparr>selects := selects c @ [(symbol, as_of_date, as_of_date)]\<rparr>)"
proof -
  have "filter (in_range symbol as_of_date as_of_date) (MKT_DATA c) = []"
    using assms by (auto simp: filter_empty_conv in_range_def)
  then show ?thesis
    by (simp add: digest_def maybe_get_data_def dao_select_def Let_def)
qed

theorem digest_missing_as_of_witness:
  "digest (\<lambda>x. ''vol'') ''ABC'' 738887 \<lparr>MKT_DATA = [abc_bar 738886 90 500000], selects = []\<rparr>
   = (Inl DigestError,
      \<lparr>MKT_DATA = [abc_bar 738886 90 500000], selects = [(''ABC'', 738887, 738887)]\<rparr>)"
  using digest_missing_as_of [of "\<lparr>MKT_DATA = [abc_bar 738886 90 500000], selects = []\<rparr>"
      "''ABC''" 738887 "\<lambda>x. ''vol''"]
  by (simp add: abc_bar_def)

section \<open>The percentage of digest\_str\<close>




section \<open>The look-back resolver\<close>

text \<open>
  Claim C5. On a table that respects its primary key, \<open>maybe_get_data\<close> returns the
  empty frame when no row of the symbol has a date in \<open>[t - w, t]\<close>; otherwise it
  returns exactly one row, a row of the table in that range whose date is the
  greatest in the range, and the only row with that date; with \<open>w = 0\<close> a row
  returned is dated exactly \<open>t\<close>.
\<close>

theorem maybe_get_data_resolves:
  assumes pk: "primary_key_ok (MKT_DATA c)"
  shows "(\<not> (\<exists>r \<in> set (MKT_DATA c). in_range symbol (t - w) t r)
            \<longrightarrow> fst (maybe_get_data symbol t w c) = DataFrame [])
     \<and> ((\<exists>r \<in> set (MKT_DATA c). in_range symbol (t - w) t r) \<longrightarrow>
          (\<exists>b. fst (maybe_get_data symbol t w c) = DataFrame [b]
             \<and> b \<in> set (MKT_DATA c) \<and> in_range symbol (t - w) t b
             \<and> (\<forall>r \<in> set (MKT_DATA c). in_range symbol (t - w) t r \<longrightarrow>
                   MKT_DATE r \<le> MKT_DATE b \<and> (MKT_DATE r = MKT_DATE b \<longrightarrow> r = b))))
     \<and> (w = 0 \<longrightarrow> (\<forall>b. fst (maybe_get_data symbol t w c) = DataFrame [b]
                       \<longrightarrow> MKT_SYMBOL b = symbol \<and> MKT_DATE b = t))"
proof -
  let ?df = "filter (in_range symbol (t - w) t) (MKT_DATA c)"
  have res: "fst (maybe_get_data symbol t w c) = DataFrame (take 1 (sort_values_desc ?df))"
    by (rule maybe_get_data_fst)
  have none: "\<not> (\<exists>r \<in> set (MKT_DATA c). in_range symbol (t - w) t r)
            \<Longrightarrow> fst (maybe_get_data symbol t w c) = DataFrame []"
  proof -
    assume "\<not> (\<exists>r \<in> set (MKT_DATA c). in_range symbol (t - w) t r)"
    then have "?df = []" by (auto simp: filter_empty_conv)
    then show ?thesis by (simp add: res sort_values_desc_def)
  qed
  have some: "\<exists>b. fst (maybe_get_data symbol t w c) = DataFrame [b]
             \<and> b \<in> set (MKT_DATA c) \<and> in_range symbol (t - w) t b
             \<and> (\<forall>r \<in> set (MKT_DATA c). in_range symbol (t - w) t r \<longrightarrow>
                   MKT_DATE r \<le> MKT_DATE b \<and> (MKT_DATE r = MKT_DATE b \<longrightarrow> r = b))"
    if ex: "\<exists>r \<in> set (MKT_DATA c). in_range symbol (t - w) t r"
  proof -
    from ex have "?df \<noteq> []" by (auto simp: filter_empty_conv)
    from take1_rev_sort_key [OF this, of MKT_DATE]
    obtain b where b: "take 1 (sort_values_desc ?df) = [b]" "b \<in> set ?df"
      "\<forall>r \<in> set ?df. MKT_DATE r \<le> MKT_DATE b"
      by (auto simp: sort_values_desc_def)
    have bin: "b \<in> set (MKT_DATA c)" "in_range symbol (t - w) t b" using b(2) by auto
    have "r = b" if "r \<in> set (MKT_DATA c)" "in_range symbol (t - w) t r"
      "MKT_DATE r = MKT_DATE b" for r
      using primary_key_unique [OF pk that(1) bin(1)] that(2,3) bin(2)
      by (simp add: in_range_def)
    then show ?thesis using b bin res by auto
  qed
  have exact: "MKT_SYMBOL b = symbol \<and> MKT_DATE b = t"
    if "w = 0" "fst (maybe_get_data symbol t w c) = DataFrame [b]" for b
  proof -
    have "take 1 (sort_values_desc ?df) = [b]" using that(2) res by simp
    then have "b \<in> set (sort_values_desc ?df)" by (metis in_set_takeD list.set_intros(1))
    then have "b \<in> set ?df" by (simp add: sort_values_desc_def)
    then show ?thesis using that(1) by (simp add: in_range_def)
  qed
  show ?thesis using none some exact by blast
qed

theorem maybe_get_data_resolves_witness:
  "primary_key_ok [abc_bar 738884 80 1, abc_bar 738886 90 500000, abc_bar 738887 100 1000000]
   \<and> fst (maybe_get_data ''ABC'' 738886 5
        \<lparr>MKT_DATA = [abc_bar 738884 80 1, abc_bar 738886 90 500000, abc_bar 738887 100 1000000],
         selects = []\<rparr>) = DataFrame [abc_bar 738886 90 500000]
   \<and> fst (maybe_get_data ''ABC'' 738885 0
        \<lparr>MKT_DATA = [abc_bar 738884 80 1, abc_bar 738886 90 500000, abc_bar 738887 100 1000000],
         selects = []\<rparr>) = DataFrame []
   \<and> fst (maybe_get_data ''ABC'' 738884 0
        \<lparr>MKT_DATA = [abc_bar 738884 80 1, abc_bar 738886 90 500000, abc_bar 738887 100 1000000],
         selects = []\<rparr>) = DataFrame [abc_bar 738884 80 1]
   \<and> MKT_DATE (abc_bar 738884 80 (1::int)) = 738884"
proof -
  let ?c = "\<lparr>MKT_DATA = [abc_bar 738884 80 1, abc_bar 738886 90 500000,
     abc_bar 738887 100 1000000], selects = []\<rparr>"
  have pk: "primary_key_ok (MKT_DATA ?c)"
    by (simp add: primary_key_ok_def pkey_def abc_bar_def)
  have ex: "\<exists>r \<in> set (MKT_DATA ?c). in_range ''ABC'' (738886 - 5) 738886 r"
    by (simp add: in_range_def abc_bar_def)
  have nex: "\<not> (\<exists>r \<in> set (MKT_DATA ?c). in_range ''ABC'' (738885 - 0) 738885 r)"
    by (simp add: in_range_def abc_bar_def)
  from maybe_get_data_resolves [OF pk, of "''ABC''" 738886 5] ex
  obtain b where b: "fst (maybe_get_data ''ABC'' 738886 5 ?c) = DataFrame [b]"
    "b \<in> set (MKT_DATA ?c)" "in_range ''ABC'' (738886 - 5) 738886 b"
    "\<forall>r \<in> set (MKT_DATA ?c). in_range ''ABC'' (738886 - 5) 738886 r \<longrightarrow>
         MKT_DATE r \<le> MKT_DATE b \<and> (MKT_DATE r = MKT_DATE b \<longrightarrow> r = b)"
    by blast
  have "in_range ''ABC'' (738886 - 5) 738886 (abc_bar 738886 90 (500000::int))"
    by (simp add: in_range_def abc_bar_def)
  then have "MKT_DATE (abc_bar 738886 90 (500000::int)) \<le> MKT_DATE b" using b(4) by simp
  then have r1: "b = abc_bar 738886 90 500000"
    using b(2,3) by (auto simp: in_range_def abc_bar_def)
  have r2: "fst (maybe_get_data ''ABC'' 738885 0 ?c) = DataFrame []"
    using maybe_get_data_resolves [OF pk, of "''ABC''" 738885 0] nex by blast
  have r3: "fst (maybe_get_data ''ABC'' 738884 0 ?c) = DataFrame [abc_bar 738884 80 1]"
    by (simp add: maybe_get_data_fst in_range_def abc_bar_def sort_values_desc_def)
  have r4: "MKT_DATE (abc_bar 738884 80 (1::int)) = 738884"
    using maybe_get_data_resolves [OF pk, of "''ABC''" 738884 0] r3 by blast
  show ?thesis using pk b(1) r1 r2 r3 r4 by simp
qed

section \<open>Upsert and range query\<close>




section \<open>The shape of the report\<close>

text \<open>
  Claim C1, as amended. For every symbol and as-of date: a report that \<open>digest\<close>
  returns has exactly two rows, CLOSE then VOLUME, and exactly nine columns (the
  METRIC column that \<open>reset_index\<close> adds, SYMBOL, the as-of column and the six
  labels), every row with nine cells; \<open>digest\<close> raises \<open>DigestError\<close> when the
  as-of date has no bar; and it returns a report when the as-of date has a bar
  and every offset resolves to a bar with a non-zero close and volume.
\<close>

theorem digest_report_shape:
  "(\<forall>rep. fst (digest business symbol d c) = Inr rep \<longrightarrow>
       length (rows rep) = 2 \<and> map hd (rows rep) = [Some ''CLOSE'', Some ''VOLUME'']
       \<and> length (columns rep) = 9 \<and> (\<forall>r \<in> set (rows rep). length r = 9))
   \<and> (fst (maybe_get_data symbol d 0 c) = DataFrame []
        \<longrightarrow> fst (digest business symbol d c) = Inl DigestError)
   \<and> (fst (maybe_get_data symbol d 0 c) \<noteq> DataFrame []
        \<and> (\<forall>(label, t) \<in> set (config d). \<exists>b. fst (maybe_get_data symbol t 5 c) = DataFrame [b]
               \<and> MKT_CLOSE b \<noteq> 0 \<and> MKT_VOLUME b \<noteq> 0)
        \<longrightarrow> (\<exists>rep. fst (digest business symbol d c) = Inr rep))"
proof -
  have shape: "length (rows rep) = 2 \<and> map hd (rows rep) = [Some ''CLOSE'', Some ''VOLUME'']
       \<and> length (columns rep) = 9 \<and> (\<forall>r \<in> set (rows rep). length r = 9)"
    if "fst (digest business symbol d c) = Inr rep" for rep
    using digest_Inr_form [OF that] by auto
  have missing: "fst (digest business symbol d c) = Inl DigestError"
    if "fst (maybe_get_data symbol d 0 c) = DataFrame []"
  proof -
    have "take 1 (sort_values_desc (filter (in_range symbol d d) (MKT_DATA c))) = []"
      using that by (simp add: maybe_get_data_fst del: One_nat_def)
    then show ?thesis by (simp add: digest_eq del: One_nat_def)
  qed
  have found: "\<exists>rep. fst (digest business symbol d c) = Inr rep"
    if ne: "fst (maybe_get_data symbol d 0 c) \<noteq> DataFrame []"
      and all: "\<forall>(label, t) \<in> set (config d). \<exists>b. fst (maybe_get_data symbol t 5 c) = DataFrame [b]
               \<and> MKT_CLOSE b \<noteq> 0 \<and> MKT_VOLUME b \<noteq> 0"
  proof -
    from ne resolved_cases [of symbol d 0 c]
    obtain a where a: "fst (maybe_get_data symbol d 0 c) = DataFrame [a]" by blast
    from all obtain b1 b2 b3 b4 b5 b6 where
      F: "fst (maybe_get_data symbol (d - 1) 5 c) = DataFrame [b1]"
        "fst (maybe_get_data symbol (d - 30) 5 c) = DataFrame [b2]"
        "fst (maybe_get_data symbol (d - 90) 5 c) = DataFrame [b3]"
        "fst (maybe_get_data symbol (d - 180) 5 c) = DataFrame [b4]"
        "fst (maybe_get_data symbol (d - 365) 5 c) = DataFrame [b5]"
        "fst (maybe_get_data symbol (d - 1095) 5 c) = DataFrame [b6]"
      and nz: "MKT_CLOSE b1 \<noteq> 0" "MKT_VOLUME b1 \<noteq> 0" "MKT_CLOSE b2 \<noteq> 0" "MKT_VOLUME b2 \<noteq> 0"
        "MKT_CLOSE b3 \<noteq> 0" "MKT_VOLUME b3 \<noteq> 0" "MKT_CLOSE b4 \<noteq> 0" "MKT_VOLUME b4 \<noteq> 0"
        "MKT_CLOSE b5 \<noteq> 0" "MKT_VOLUME b5 \<noteq> 0" "MKT_CLOSE b6 \<noteq> 0" "MKT_VOLUME b6 \<noteq> 0"
      by (auto simp: config_eq)
    show ?thesis
      by (rule exI, rule digest_Inr_intro [OF a F])
        (simp_all add: digest_str_Inr_iff nz)
  qed
  show ?thesis using shape missing found by blast
qed

theorem digest_report_shape_witness:
  "fst (maybe_get_data ''ABC'' 738887 0 abc_store) \<noteq> DataFrame []
   \<and> (\<exists>rep. fst (digest example_business ''ABC'' 738887 abc_store) = Inr rep
         \<and> length (rows rep) = 2 \<and> map hd (rows rep) = [Some ''CLOSE'', Some ''VOLUME'']
         \<and> length (columns rep) = 9)
   \<and> fst (digest example_business ''ABC'' 738888 abc_store) = Inl DigestError"
proof -
  have ne: "fst (maybe_get_data ''ABC'' 738887 0 abc_store) \<noteq> DataFrame []"
    by (simp add: abc_resolved)
  have all: "\<forall>(label, t) \<in> set (config 738887).
      \<exists>b. fst (maybe_get_data ''ABC'' t 5 abc_store) = DataFrame [b]
         \<and> MKT_CLOSE b \<noteq> 0 \<and> MKT_VOLUME b \<noteq> 0"
    using abc_resolved by (simp add: config_eq abc_bar_def)
  have e: "fst (maybe_get_data ''ABC'' 738888 0 abc_store) = DataFrame []"
    by (simp add: maybe_get_data_fst abc_store_def in_range_def abc_bar_def sort_values_desc_def)
  note t = digest_report_shape [of example_business "''ABC''" 738887 abc_store]
  note t2 = digest_report_shape [of example_business "''ABC''" 738888 abc_store]
  from t [THEN conjunct2, THEN conjunct2] ne all
  obtain rep where r: "fst (digest example_business ''ABC'' 738887 abc_store) = Inr rep"
    by blast
  from t [THEN conjunct1, rule_format, OF r]
  have s: "length (rows rep) = 2" "map hd (rows rep) = [Some ''CLOSE'', Some ''VOLUME'']"
    "length (columns rep) = 9" by simp_all
  have m: "fst (digest example_business ''ABC'' 738888 abc_store) = Inl DigestError"
    using t2 [THEN conjunct2, THEN conjunct1] e by simp
  show ?thesis using ne r s m by simp
qed

text \<open>
  The claim as stated, with eight columns and no exception but \<open>DigestError\<close>, fails
  on the example table (nine columns) and on the table with the two bars of the
  scenario only (\<open>IndexError\<close>).
\<close>

theorem digest_report_shape_counterexample:
  "fst (digest example_business ''ABC'' 738887 abc_store) \<noteq> Inl DigestError
   \<and> length (rows (report_of (fst (digest example_business ''ABC'' 738887 abc_store)))) = 2
   \<and> length (columns (report_of (fst (digest example_business ''ABC'' 738887 abc_store)))) = 9
   \<and> fst (digest example_business ''ABC'' 738887
        \<lparr>MKT_DATA = [abc_bar 738887 100 1000000, abc_bar 738886 90 500000], selects = []\<rparr>)
      = Inl IndexError"
proof -
  have "fst (digest example_business ''ABC'' 738887
        \<lparr>MKT_DATA = [abc_bar 738887 100 1000000, abc_bar 738886 90 500000], selects = []\<rparr>)
      = Inl IndexError"
    by (simp add: digest_eq config_eq maybe_get_data_fst in_range_def abc_bar_def
      sort_values_desc_def digest_frames_def validate_def check_no_data_def)
  then show ?thesis by (simp add: abc_digest report_of_def)
qed

section \<open>Missing offset data\<close>

text \<open>
  Claim C2. On the table that holds the as-of bar and the bar of the day before
  only, the offsets from one month on resolve to empty frames; \<open>digest\<close> makes
  all seven queries and then raises \<open>IndexError\<close>, not \<open>DigestError\<close>: the
  validation looks for \<open>None\<close>, which the resolver never returns, and the first
  date of an empty frame is then read.
\<close>

theorem digest_missing_offset_index_error:
  "digest example_business ''ABC'' 738887
   \<lparr>MKT_DATA = [abc_bar 738887 100 1000000, abc_bar 738886 90 500000], selects = []\<rparr>
   = (Inl IndexError,
      \<lparr>MKT_DATA = [abc_bar 738887 100 1000000, abc_bar 738886 90 500000],
       selects = [(''ABC'', 738887, 738887), (''ABC'', 738881, 738886),
        (''ABC'', 738852, 738857), (''ABC'', 738792, 738797),
        (''ABC'', 738702, 738707), (''ABC'', 738517, 738522),
        (''ABC'', 737787, 737792)]\<rparr>)"
  by (simp add: digest_eq config_eq maybe_get_data_fst in_range_def abc_bar_def
      sort_values_desc_def digest_frames_def validate_def check_no_data_def)

section \<open>The columns of the report\<close>

text \<open>
  Claim C3, as amended. For every successful digest the columns are METRIC, SYMBOL,
  the as-of-date column, and then the six offset labels, each once, and nothing
  else.
\<close>

theorem digest_columns_labels:
  assumes ok: "fst (digest business symbol d c) = Inr rep"
  shows "\<exists>labels. columns rep = [''METRIC'', ''SYMBOL'', strftime_a_d_b_y d] @ labels
     \<and> distinct labels \<and> set labels = set (map fst offsets)"
proof -
  from digest_Inr_form [OF ok]
  have "columns rep = [''METRIC'', ''SYMBOL'', strftime_a_d_b_y d]
          @ [''1d'', ''1m'', ''1y'', ''3m'', ''3y'', ''6m'']"
    by auto
  moreover have "distinct [''1d'', ''1m'', ''1y'', ''3m'', ''3y'', ''6m'']" by simp
  moreover have "set [''1d'', ''1m'', ''1y'', ''3m'', ''3y'', ''6m''] = set (map fst offsets)"
    by (auto simp: offsets_def)
  ultimately show ?thesis by blast
qed

theorem digest_columns_labels_witness:
  "\<exists>rep labels. fst (digest example_business ''ABC'' 738887 abc_store) = Inr rep
     \<and> columns rep = [''METRIC'', ''SYMBOL'', ''Tue 02 Jan 24''] @ labels
     \<and> distinct labels \<and> set labels = {''1d'', ''1m'', ''3m'', ''6m'', ''1y'', ''3y''}"
proof -
  obtain rep where r: "fst (digest example_business ''ABC'' 738887 abc_store) = Inr rep"
    using abc_digest by blast
  from digest_columns_labels [OF r] obtain labels where
    "columns rep = [''METRIC'', ''SYMBOL'', strftime_a_d_b_y 738887] @ labels"
    "distinct labels" "set labels = set (map fst offsets)" by blast
  then show ?thesis using r by (auto simp: abc_strftime offsets_def)
qed

text \<open>
  The claim as stated fails on the example table: the report starts with the
  METRIC column, and the labels are not in the order of the offsets.
\<close>

theorem digest_columns_counterexample:
  "columns (report_of (fst (digest example_business ''ABC'' 738887 abc_store)))
     = [''METRIC'', ''SYMBOL'', ''Tue 02 Jan 24'', ''1d'', ''1m'', ''1y'', ''3m'', ''3y'', ''6m'']
   \<and> columns (report_of (fst (digest example_business ''ABC'' 738887 abc_store)))
     \<noteq> [''SYMBOL'', ''Tue 02 Jan 24'', ''1d'', ''1m'', ''3m'', ''6m'', ''1y'', ''3y'']"
  by (simp add: abc_digest report_of_def)

section \<open>The comparison cells\<close>




section \<open>Duplicate resolved dates\<close>




end
